theory Spec2Isabelle
  imports Main
begin

section \<open>Data model (the type declarations \<open>BlockType\<close> and \<open>BlockData\<close>)\<close>

text \<open>
  \<open>BlockType\<close> is a union of ten string literals. Each literal is one constructor;
  \<open>type_str\<close> gives back the literal, which the code inspects in \<open>addBlock\<close>.
\<close>

datatype BlockType =
    BT_h1
  | BT_h2
  | BT_h3
  | BT_paragraph
  | BT_image
  | BT_code
  | BT_blockquote
  | BT_list_ul
  | BT_list_ol
  | BT_divider

fun type_str :: "BlockType \<Rightarrow> string" where
  "type_str BT_h1 = ''h1''"
| "type_str BT_h2 = ''h2''"
| "type_str BT_h3 = ''h3''"
| "type_str BT_paragraph = ''paragraph''"
| "type_str BT_image = ''image''"
| "type_str BT_code = ''code''"
| "type_str BT_blockquote = ''blockquote''"
| "type_str BT_list_ul = ''list-ul''"
| "type_str BT_list_ol = ''list-ol''"
| "type_str BT_divider = ''divider''"

text \<open>
  The optional \<open>metadata\<close> object: each of its three properties may be missing
  (\<open>None\<close>). The empty object \<open>{}\<close> has all three missing.
\<close>

record Metadata =
  language :: "string option"
  alt :: "string option"
  items :: "string list option"

text \<open>
  \<open>BlockData\<close>. The properties \<open>id\<close> and \<open>type\<close> are called \<open>block_id\<close> and
  \<open>block_type\<close> here; \<open>metadata\<close> is optional. A string of the program is a list
  of characters: the code concatenates strings, compares ids for equality and tests a
  string for being empty, and does nothing else with them.
\<close>

record BlockData =
  block_id :: string
  block_type :: BlockType
  content :: string
  metadata :: "Metadata option"

text \<open>
  \<open>Partial<BlockData>\<close>: every property of \<open>BlockData\<close> may be missing. For
  \<open>metadata\<close>, which is optional in \<open>BlockData\<close> already, a property that is present
  with the value \<open>undefined\<close> (\<open>Some None\<close>) differs from a missing one (\<open>None\<close>):
  the object spread copies the former.
\<close>

record BlockData_partial =
  p_id :: "string option"
  p_type :: "BlockType option"
  p_content :: "string option"
  p_metadata :: "Metadata option option"

datatype direction = Up | Down

text \<open>The document the editor starts with. Neither block has a metadata object.\<close>

definition INITIAL_BLOCKS :: "BlockData list" where
  "INITIAL_BLOCKS =
     [ \<lparr> block_id = ''1'', block_type = BT_h1, content = ''Welcome to MarkFlow'',
         metadata = None \<rparr>,
       \<lparr> block_id = ''2'', block_type = BT_paragraph,
         content = ''This is a low-code Markdown editor designed with the Gemini aesthetics. Drag blocks and export seamlessly.'',
         metadata = None \<rparr> ]"

section \<open>Library functions of the host language\<close>

text \<open>\<open>String.prototype.includes\<close>: does \<open>sub\<close> occur in \<open>s\<close> as a substring?\<close>

fun starts_with :: "string \<Rightarrow> string \<Rightarrow> bool" where
  "starts_with s [] = True"
| "starts_with [] (c # cs) = False"
| "starts_with (x # xs) (c # cs) = (x = c \<and> starts_with xs cs)"

fun includes_str :: "string \<Rightarrow> string \<Rightarrow> bool" where
  "includes_str [] sub = (sub = [])"
| "includes_str (x # xs) sub = (starts_with (x # xs) sub \<or> includes_str xs sub)"

text \<open>
  \<open>Array.prototype.findIndex\<close>: the index of the first element that satisfies the
  predicate, and \<open>-1\<close> when there is none. The counter \<open>k\<close> is the loop index.
\<close>

fun findIndex_from :: "('a \<Rightarrow> bool) \<Rightarrow> 'a list \<Rightarrow> int \<Rightarrow> int" where
  "findIndex_from p [] k = - 1"
| "findIndex_from p (x # xs) k = (if p x then k else findIndex_from p xs (k + 1))"

definition findIndex :: "('a \<Rightarrow> bool) \<Rightarrow> 'a list \<Rightarrow> int" where
  "findIndex p xs = findIndex_from p xs 0"

text \<open>
  \<open>Array.prototype.join\<close>: the loop of the language standard. The result starts
  empty; before every element but the first the separator is appended, then the
  element.
\<close>

fun join_loop :: "string \<Rightarrow> string list \<Rightarrow> nat \<Rightarrow> string \<Rightarrow> string" where
  "join_loop sep [] k r = r"
| "join_loop sep (e # es) k r =
     join_loop sep es (k + 1) ((if 0 < k then r @ sep else r) @ e)"

definition join :: "string list \<Rightarrow> string \<Rightarrow> string" where
  "join xs sep = join_loop sep xs 0 ''''"

text \<open>
  \<open>Array.prototype.map\<close> with a callback that takes the element and its index.
\<close>

fun map_index_from :: "nat \<Rightarrow> ('a \<Rightarrow> nat \<Rightarrow> 'b) \<Rightarrow> 'a list \<Rightarrow> 'b list" where
  "map_index_from k f [] = []"
| "map_index_from k f (x # xs) = f x k # map_index_from (k + 1) f xs"

definition map_index :: "('a \<Rightarrow> nat \<Rightarrow> 'b) \<Rightarrow> 'a list \<Rightarrow> 'b list" where
  "map_index f xs = map_index_from 0 f xs"

text \<open>
  A non-negative integer in a template literal: its decimal digits, without leading
  zeros.
\<close>

definition digit_char :: "nat \<Rightarrow> char" where
  "digit_char d = ''0123456789'' ! d"

function string_of_nat :: "nat \<Rightarrow> string" where
  "string_of_nat n =
     (if n < 10 then [digit_char n]
      else string_of_nat (n div 10) @ [digit_char (n mod 10)])"
  by pat_completeness auto
termination
  by (relation "measure (\<lambda>n. n)") auto

declare string_of_nat.simps [simp del]

text \<open>
  \<open>v || d\<close> for an optional string \<open>v\<close>: \<open>undefined\<close> and the empty string are falsy,
  so both give the default \<open>d\<close>.
\<close>

definition or_default :: "string option \<Rightarrow> string \<Rightarrow> string" where
  "or_default v d = (case v of None \<Rightarrow> d | Some s \<Rightarrow> if s = [] then d else s)"

text \<open>
  \<open>v || []\<close> for an optional array \<open>v\<close>: every array is truthy, the empty one too,
  so only \<open>undefined\<close> gives the default.
\<close>

definition or_empty :: "'a list option \<Rightarrow> 'a list" where
  "or_empty v = (case v of None \<Rightarrow> [] | Some xs \<Rightarrow> xs)"

text \<open>\<open>block.metadata?.f\<close>: \<open>undefined\<close> when there is no metadata object.\<close>

definition opt_chain :: "Metadata option \<Rightarrow> (Metadata \<Rightarrow> 'a option) \<Rightarrow> 'a option" where
  "opt_chain m f = (case m of None \<Rightarrow> None | Some md \<Rightarrow> f md)"

section \<open>Block management\<close>

text \<open>
  Every handler passes a function from the previous block list to the next one to
  the state setter; the functions below are these state transformers. The identifier
  that \<open>crypto.randomUUID()\<close> returns is the parameter \<open>uuid\<close> of \<open>addBlock\<close>.
\<close>

definition addBlock :: "string \<Rightarrow> BlockType \<Rightarrow> BlockData list \<Rightarrow> BlockData list" where
  "addBlock uuid t prev =
     (let newBlock =
        \<lparr> block_id = uuid,
          block_type = t,
          content = '''',
          metadata = Some (if includes_str (type_str t) ''list''
                           then \<lparr> language = None, alt = None, items = Some [''''] \<rparr>
                           else \<lparr> language = None, alt = None, items = None \<rparr>) \<rparr>
      in prev @ [newBlock])"

text \<open>
  The object spread \<open>{ ...b, ...updates }\<close>: every property that \<open>updates\<close> has
  replaces the one of \<open>b\<close>; the others are kept.
\<close>

definition spread :: "BlockData \<Rightarrow> BlockData_partial \<Rightarrow> BlockData" where
  "spread b updates =
     \<lparr> block_id = (case p_id updates of None \<Rightarrow> block_id b | Some v \<Rightarrow> v),
       block_type = (case p_type updates of None \<Rightarrow> block_type b | Some v \<Rightarrow> v),
       content = (case p_content updates of None \<Rightarrow> content b | Some v \<Rightarrow> v),
       metadata = (case p_metadata updates of None \<Rightarrow> metadata b | Some v \<Rightarrow> v) \<rparr>"

definition updateBlock :: "string \<Rightarrow> BlockData_partial \<Rightarrow> BlockData list \<Rightarrow> BlockData list" where
  "updateBlock i updates prev = map (\<lambda>b. if block_id b = i then spread b updates else b) prev"

definition removeBlock :: "string \<Rightarrow> BlockData list \<Rightarrow> BlockData list" where
  "removeBlock i prev = filter (\<lambda>b. block_id b \<noteq> i) prev"

text \<open>
  In \<open>moveBlock\<close> the two guards leave \<open>index\<close> and \<open>swapIndex\<close> inside the array
  (lemma \<open>moveBlock_swap_in_range\<close> below), so both reads and both writes of the swap are
  in range. The right-hand side of the destructuring assignment is read before
  either element is written.
\<close>

definition moveBlock :: "string \<Rightarrow> direction \<Rightarrow> BlockData list \<Rightarrow> BlockData list" where
  "moveBlock i dir prev =
     (let index = findIndex (\<lambda>b. block_id b = i) prev in
      if index = - 1 then prev
      else if dir = Up \<and> index = 0 then prev
      else if dir = Down \<and> index = int (length prev) - 1 then prev
      else
        let newBlocks = prev;
            swapIndex = (if dir = Up then index - 1 else index + 1);
            fst_val = newBlocks ! nat swapIndex;
            snd_val = newBlocks ! nat index
        in newBlocks[nat index := fst_val, nat swapIndex := snd_val])"

section \<open>Output generation\<close>

text \<open>
  The callback of \<open>generateMarkdownString\<close>. The \<open>default\<close> branch of the switch
  is never taken: \<open>BlockType\<close> has the ten members above and no other.
\<close>

definition render_block :: "BlockData \<Rightarrow> string" where
  "render_block block =
     (case block_type block of
        BT_h1 \<Rightarrow> ''# '' @ content block
      | BT_h2 \<Rightarrow> ''## '' @ content block
      | BT_h3 \<Rightarrow> ''### '' @ content block
      | BT_paragraph \<Rightarrow> content block
      | BT_blockquote \<Rightarrow> ''> '' @ content block
      | BT_code \<Rightarrow>
          ''```'' @ or_default (opt_chain (metadata block) language) '''' @ ''\<newline>''
            @ content block @ ''\<newline>```''
      | BT_image \<Rightarrow>
          ''!['' @ or_default (opt_chain (metadata block) alt) ''image'' @ ''](''
            @ content block @ '')''
      | BT_list_ul \<Rightarrow>
          join (map (\<lambda>item. ''- '' @ item) (or_empty (opt_chain (metadata block) items)))
            ''\<newline>''
      | BT_list_ol \<Rightarrow>
          join (map_index (\<lambda>item i. string_of_nat (i + 1) @ ''. '' @ item)
                  (or_empty (opt_chain (metadata block) items)))
            ''\<newline>''
      | BT_divider \<Rightarrow> ''---'')"

definition generateMarkdownString :: "BlockData list \<Rightarrow> string" where
  "generateMarkdownString currentBlocks = join (map render_block currentBlocks) ''\<newline>\<newline>''"

section \<open>Definitions that follow the words of the specification\<close>

text \<open>
  The specification describes the output as the renderings in sequence order with a
  separator between consecutive ones. \<open>join_between\<close> says this directly; it is
  compared with the loop \<open>join\<close> of the code in \<open>join_between_eq\<close>.
\<close>

fun join_between :: "string \<Rightarrow> string list \<Rightarrow> string" where
  "join_between sep [] = []"
| "join_between sep [x] = x"
| "join_between sep (x # y # ys) = x @ sep @ join_between sep (y # ys)"

text \<open>
  Reading a string of decimal digits as a number, to say that \<open>string_of_nat\<close>
  gives the decimal digits of its argument (\<open>string_of_nat_decimal\<close>).
\<close>

definition digit_val :: "char \<Rightarrow> nat" where
  "digit_val c = of_char c - 48"

definition nat_of_string :: "string \<Rightarrow> nat" where
  "nat_of_string s = foldl (\<lambda>acc c. 10 * acc + digit_val c) 0 s"

section \<open>Properties of the library functions\<close>

lemma join_loop_Suc: "join_loop sep xs (Suc k) r = r @ concat (map (\<lambda>e. sep @ e) xs)"
  by (induction xs arbitrary: k r) simp_all

lemma join_between_Cons: "join_between sep (x # xs) = x @ concat (map (\<lambda>e. sep @ e) xs)"
  by (induction xs arbitrary: x) simp_all

lemma join_between_eq: "join xs sep = join_between sep xs"
proof (cases xs)
  case Nil
  then show ?thesis by (simp add: join_def)
next
  case (Cons x rest)
  have "join (x # rest) sep = join_loop sep rest (Suc 0) x"
    by (simp add: join_def)
  then show ?thesis
    by (simp add: Cons join_loop_Suc join_between_Cons del: join_between.simps)
qed

lemma findIndex_from_absent:
  "\<forall>x \<in> set xs. \<not> p x \<Longrightarrow> findIndex_from p xs k = - 1"
  by (induction xs arbitrary: k) simp_all

lemma findIndex_from_first:
  "\<forall>x \<in> set pre. \<not> p x \<Longrightarrow> p b \<Longrightarrow> findIndex_from p (pre @ b # post) k = k + int (length pre)"
  by (induction pre arbitrary: k) simp_all

lemma findIndex_absent: "\<forall>x \<in> set xs. \<not> p x \<Longrightarrow> findIndex p xs = - 1"
  by (simp add: findIndex_def findIndex_from_absent)

lemma findIndex_first:
  "\<forall>x \<in> set pre. \<not> p x \<Longrightarrow> p b \<Longrightarrow> findIndex p (pre @ b # post) = int (length pre)"
  by (simp add: findIndex_def findIndex_from_first)

lemma findIndex_from_range:
  "findIndex_from p xs k = - 1 \<or> (k \<le> findIndex_from p xs k \<and> findIndex_from p xs k < k + int (length xs))"
proof (induction xs arbitrary: k)
  case Nil
  show ?case by simp
next
  case (Cons x xs)
  from Cons.IH [of "k + 1"] show ?case by auto
qed

lemma findIndex_range:
  "findIndex p xs = - 1 \<or> (0 \<le> findIndex p xs \<and> findIndex p xs < int (length xs))"
  using findIndex_from_range [of p xs 0] by (simp add: findIndex_def)

lemma includes_list_iff:
  "includes_str (type_str t) ''list'' \<longleftrightarrow> t = BT_list_ul \<or> t = BT_list_ol"
  by (cases t) simp_all

lemma map_index_from_upt:
  "map_index_from k f xs = map (\<lambda>j. f (xs ! j) (k + j)) [0..<length xs]"
proof (induction xs arbitrary: k)
  case Nil
  show ?case by simp
next
  case (Cons x xs)
  have "[0..<length (x # xs)] = 0 # map Suc [0..<length xs]"
    by (simp add: upt_conv_Cons map_Suc_upt del: upt_Suc)
  then show ?case
    by (simp add: Cons.IH comp_def)
qed

lemma map_index_upt: "map_index f xs = map (\<lambda>j. f (xs ! j) j) [0..<length xs]"
  by (simp add: map_index_def map_index_from_upt)


lemma digit_val_digit_char: "d < 10 \<Longrightarrow> digit_val (digit_char d) = d"
proof -
  assume "d < 10"
  then have "d \<in> {0, 1, 2, 3, 4, 5, 6, 7, 8, 9}"
    by auto
  then show ?thesis
    by (auto simp: digit_val_def digit_char_def)
qed

lemma nat_of_string_snoc: "nat_of_string (s @ [c]) = 10 * nat_of_string s + digit_val c"
  by (simp add: nat_of_string_def)

lemma string_of_nat_decimal: "nat_of_string (string_of_nat n) = n"
proof (induction n rule: string_of_nat.induct)
  case (1 n)
  show ?case
  proof (cases "n < 10")
    case True
    then have "string_of_nat n = [digit_char n]"
      by (simp add: string_of_nat.simps)
    with True show ?thesis
      by (simp add: nat_of_string_def digit_val_digit_char)
  next
    case False
    then have "string_of_nat n = string_of_nat (n div 10) @ [digit_char (n mod 10)]"
      by (subst string_of_nat.simps) simp
    with False "1.IH" show ?thesis
      by (simp add: nat_of_string_snoc digit_val_digit_char)
  qed
qed

lemma string_of_nat_small: "n < 10 \<Longrightarrow> string_of_nat n = [digit_char n]"
  by (simp add: string_of_nat.simps)

lemma string_of_nat_large:
  "\<not> n < 10 \<Longrightarrow> string_of_nat n = string_of_nat (n div 10) @ [digit_char (n mod 10)]"
  by (subst string_of_nat.simps) simp

lemma length_string_of_nat_pos: "0 < length (string_of_nat n)"
  by (cases "n < 10") (simp_all add: string_of_nat_small string_of_nat_large)

lemma string_of_nat_upper: "n < 10 ^ length (string_of_nat n)"
proof (induction n rule: string_of_nat.induct)
  case (1 n)
  show ?case
  proof (cases "n < 10")
    case True
    then show ?thesis by (simp add: string_of_nat_small)
  next
    case False
    with "1.IH" have "n div 10 < 10 ^ length (string_of_nat (n div 10))"
      by simp
    then have "n < 10 * 10 ^ length (string_of_nat (n div 10))"
      by linarith
    with False show ?thesis
      by (simp add: string_of_nat_large)
  qed
qed

lemma string_of_nat_lower:
  "1 < length (string_of_nat n) \<Longrightarrow> 10 ^ (length (string_of_nat n) - 1) \<le> n"
proof (induction n rule: string_of_nat.induct)
  case (1 n)
  show ?case
  proof (cases "n < 10")
    case True
    with "1.prems" show ?thesis by (simp add: string_of_nat_small)
  next
    case False
    let ?m = "length (string_of_nat (n div 10))"
    have len: "length (string_of_nat n) = Suc ?m"
      using False by (simp add: string_of_nat_large)
    have "10 ^ ?m \<le> n"
    proof (cases "1 < ?m")
      case True
      with False "1.IH" have "10 ^ (?m - 1) \<le> n div 10"
        by simp
      then have "10 * 10 ^ (?m - 1) \<le> n"
        by linarith
      moreover from True have "(10::nat) * 10 ^ (?m - 1) = 10 ^ ?m"
        by (cases ?m) simp_all
      ultimately show ?thesis by simp
    next
      case False
      with length_string_of_nat_pos [of "n div 10"] have "?m = 1"
        by linarith
      with \<open>\<not> n < 10\<close> show ?thesis by simp
    qed
    with len show ?thesis by simp
  qed
qed

lemma length_string_of_nat_Least:
  "length (string_of_nat n) = (LEAST m. 0 < m \<and> n < 10 ^ m)"
proof (rule Least_equality [symmetric])
  show "0 < length (string_of_nat n) \<and> n < 10 ^ length (string_of_nat n)"
    by (intro conjI length_string_of_nat_pos string_of_nat_upper)
next
  fix m :: nat
  assume m: "0 < m \<and> n < 10 ^ m"
  show "length (string_of_nat n) \<le> m"
  proof (cases "1 < length (string_of_nat n)")
    case True
    then have "(10::nat) ^ (length (string_of_nat n) - 1) \<le> n"
      by (rule string_of_nat_lower)
    with m have "(10::nat) ^ (length (string_of_nat n) - 1) < 10 ^ m"
      by linarith
    then have "length (string_of_nat n) - 1 < m"
      by simp
    then show ?thesis by linarith
  next
    case False
    with m show ?thesis by linarith
  qed
qed

lemma string_of_nat_nth:
  "j < length (string_of_nat n) \<Longrightarrow>
   string_of_nat n ! j = digit_char (n div 10 ^ (length (string_of_nat n) - 1 - j) mod 10)"
proof (induction n arbitrary: j rule: string_of_nat.induct)
  case (1 n)
  show ?case
  proof (cases "n < 10")
    case True
    with "1.prems" show ?thesis by (simp add: string_of_nat_small)
  next
    case False
    let ?m = "length (string_of_nat (n div 10))"
    have eq: "string_of_nat n = string_of_nat (n div 10) @ [digit_char (n mod 10)]"
      using False by (rule string_of_nat_large)
    show ?thesis
    proof (cases "j < ?m")
      case True
      with False "1.IH" have
        "string_of_nat (n div 10) ! j = digit_char (n div 10 div 10 ^ (?m - 1 - j) mod 10)"
        by simp
      moreover from True have "?m - j = Suc (?m - 1 - j)"
        by linarith
      then have "n div 10 ^ (?m - j) = n div 10 div 10 ^ (?m - 1 - j)"
        by (simp add: div_mult2_eq)
      ultimately show ?thesis
        using True by (simp add: eq nth_append)
    next
      case False
      with "1.prems" eq have "j = ?m" by simp
      then show ?thesis by (simp add: eq nth_append)
    qed
  qed
qed

lemma string_of_nat_positional:
  "string_of_nat n =
     map (\<lambda>j. ''0123456789'' ! (n div 10 ^ ((LEAST m. 0 < m \<and> n < 10 ^ m) - 1 - j) mod 10))
       [0..<(LEAST m. 0 < m \<and> n < 10 ^ m)]"
  unfolding length_string_of_nat_Least [symmetric]
  by (rule nth_equalityI) (simp_all add: string_of_nat_nth digit_char_def)

section \<open>Properties of the block operations\<close>

lemma findIndex_id_absent:
  "i \<notin> block_id ` set d \<Longrightarrow> findIndex (\<lambda>b. block_id b = i) d = - 1"
  by (rule findIndex_absent) auto

lemma findIndex_id_first:
  assumes "i \<notin> block_id ` set pre" and "block_id b = i"
  shows "findIndex (\<lambda>b. block_id b = i) (pre @ b # post) = int (length pre)"
proof (rule findIndex_first)
  show "\<forall>x \<in> set pre. block_id x \<noteq> i"
    using assms(1) by blast
  show "block_id b = i"
    by (rule assms(2))
qed

lemma moveBlock_absent: "i \<notin> block_id ` set d \<Longrightarrow> moveBlock i dir d = d"
  by (simp add: moveBlock_def findIndex_id_absent)

lemma moveBlock_first_up: "block_id b = i \<Longrightarrow> moveBlock i Up (b # post) = b # post"
  using findIndex_id_first [of i "[]" b post] by (simp add: moveBlock_def)

lemma moveBlock_last_down:
  "i \<notin> block_id ` set pre \<Longrightarrow> block_id b = i \<Longrightarrow> moveBlock i Down (pre @ [b]) = pre @ [b]"
  using findIndex_id_first [of i pre b "[]"] by (simp add: moveBlock_def)

lemma moveBlock_up_swap:
  assumes "i \<notin> block_id ` set pre" and "block_id a \<noteq> i" and "block_id b = i"
  shows "moveBlock i Up (pre @ a # b # post) = pre @ b # a # post"
proof -
  have "i \<notin> block_id ` set (pre @ [a])"
    using assms by auto
  then have "findIndex (\<lambda>b. block_id b = i) ((pre @ [a]) @ b # post) = int (length (pre @ [a]))"
    using assms(3) by (rule findIndex_id_first)
  then have idx: "findIndex (\<lambda>b. block_id b = i) (pre @ a # b # post) = int (length pre) + 1"
    by simp
  have "(pre @ a # b # post)[Suc (length pre) := a, length pre := b] = pre @ b # a # post"
    by (simp add: list_update_append)
  then show ?thesis
    by (simp add: moveBlock_def idx Let_def nat_add_distrib nth_append)
qed

lemma moveBlock_down_swap:
  assumes "i \<notin> block_id ` set pre" and "block_id b = i"
  shows "moveBlock i Down (pre @ b # c # post) = pre @ c # b # post"
proof -
  have idx: "findIndex (\<lambda>b. block_id b = i) (pre @ b # c # post) = int (length pre)"
    using assms by (rule findIndex_id_first)
  have "(pre @ b # c # post)[length pre := c, Suc (length pre) := b] = pre @ c # b # post"
    by (simp add: list_update_append)
  then show ?thesis
    by (simp add: moveBlock_def idx Let_def nat_add_distrib nth_append)
qed

lemma moveBlock_swap_in_range:
  assumes "index = findIndex (\<lambda>b. block_id b = i) prev"
    and "index \<noteq> - 1"
    and "\<not> (dir = Up \<and> index = 0)"
    and "\<not> (dir = Down \<and> index = int (length prev) - 1)"
    and "swapIndex = (if dir = Up then index - 1 else index + 1)"
  shows "0 \<le> index \<and> index < int (length prev) \<and>
         0 \<le> swapIndex \<and> swapIndex < int (length prev)"
  using assms findIndex_range [of "\<lambda>b. block_id b = i" prev]
  by (cases dir) auto

lemma length_moveBlock: "length (moveBlock i dir prev) = length prev"
  by (simp add: moveBlock_def Let_def)

lemma render_block_cong:
  assumes "block_type a = block_type b" and "content a = content b"
    and "metadata a = metadata b"
  shows "render_block a = render_block b"
  unfolding render_block_def assms ..

lemma string_of_nat_1: "string_of_nat (Suc 0) = ''1''"
  by (simp add: string_of_nat.simps digit_char_def)

lemma string_of_nat_2: "string_of_nat (Suc (Suc 0)) = ''2''"
  by (simp add: string_of_nat.simps digit_char_def)

section \<open>Block management: the claims\<close>

text \<open>
  Claim C1, as amended. \<open>updateBlock\<close> keeps the length of the document; a block whose
  id differs from the given one is left as it is; a block whose id matches is replaced
  by the merge, in which each of id, kind, content and metadata is the supplied value
  when the partial fields supply one and the block's own value otherwise. So kind and
  id stay what they were whenever the partial fields supply neither.
\<close>

theorem updateBlock_merge:
  "length (updateBlock i u d) = length d \<and>
   (\<forall>k < length d.
      (block_id (d ! k) = i \<longrightarrow>
         block_id (updateBlock i u d ! k) =
           (case p_id u of None \<Rightarrow> block_id (d ! k) | Some v \<Rightarrow> v) \<and>
         block_type (updateBlock i u d ! k) =
           (case p_type u of None \<Rightarrow> block_type (d ! k) | Some v \<Rightarrow> v) \<and>
         content (updateBlock i u d ! k) =
           (case p_content u of None \<Rightarrow> content (d ! k) | Some v \<Rightarrow> v) \<and>
         metadata (updateBlock i u d ! k) =
           (case p_metadata u of None \<Rightarrow> metadata (d ! k) | Some v \<Rightarrow> v)) \<and>
      (block_id (d ! k) \<noteq> i \<longrightarrow> updateBlock i u d ! k = d ! k) \<and>
      (p_id u = None \<and> p_type u = None \<longrightarrow>
         block_id (updateBlock i u d ! k) = block_id (d ! k) \<and>
         block_type (updateBlock i u d ! k) = block_type (d ! k)))"
  by (simp add: updateBlock_def spread_def)

theorem updateBlock_merge_witness:
  "(0::nat) < length INITIAL_BLOCKS \<and> block_id (INITIAL_BLOCKS ! 0) = ''1'' \<and>
   block_id (INITIAL_BLOCKS ! 1) \<noteq> ''1'' \<and>
   updateBlock ''1''
     \<lparr> p_id = None, p_type = None, p_content = Some ''Hello'', p_metadata = None \<rparr>
     INITIAL_BLOCKS
   = [ \<lparr> block_id = ''1'', block_type = BT_h1, content = ''Hello'', metadata = None \<rparr>,
       INITIAL_BLOCKS ! 1 ]"
  using updateBlock_merge [of "''1''"
      "\<lparr> p_id = None, p_type = None, p_content = Some ''Hello'', p_metadata = None \<rparr>"
      INITIAL_BLOCKS]
  by (simp add: INITIAL_BLOCKS_def updateBlock_def spread_def)

text \<open>
  Claim C1 as stated fails: partial fields that supply an id and a kind change both.
  On the initial document, updating block \<open>1\<close> with id \<open>9\<close> and kind \<open>h2\<close> gives a
  first block with id \<open>9\<close> and kind \<open>h2\<close>.
\<close>

theorem updateBlock_alters_id_and_type:
  "updateBlock ''1''
     \<lparr> p_id = Some ''9'', p_type = Some BT_h2, p_content = None, p_metadata = None \<rparr>
     INITIAL_BLOCKS ! 0
   = \<lparr> block_id = ''9'', block_type = BT_h2, content = ''Welcome to MarkFlow'',
       metadata = None \<rparr> \<and>
   block_id (updateBlock ''1''
     \<lparr> p_id = Some ''9'', p_type = Some BT_h2, p_content = None, p_metadata = None \<rparr>
     INITIAL_BLOCKS ! 0) \<noteq> block_id (INITIAL_BLOCKS ! 0) \<and>
   block_type (updateBlock ''1''
     \<lparr> p_id = Some ''9'', p_type = Some BT_h2, p_content = None, p_metadata = None \<rparr>
     INITIAL_BLOCKS ! 0) \<noteq> block_type (INITIAL_BLOCKS ! 0)"
  by (simp add: INITIAL_BLOCKS_def updateBlock_def spread_def)

text \<open>
  Claim C3. \<open>addBlock\<close> makes the document one block longer, the old document is the
  prefix of the new one, and the block at the end has the new id, the given kind, empty
  content, and the metadata \<open>{ items: [""] }\<close> for the two list kinds and \<open>{}\<close> for the
  eight others.
\<close>

theorem addBlock_appends:
  "length (addBlock uuid k d) = length d + 1 \<and>
   take (length d) (addBlock uuid k d) = d \<and>
   addBlock uuid k d =
     d @ [ \<lparr> block_id = uuid, block_type = k, content = '''',
             metadata = Some (if k = BT_list_ul \<or> k = BT_list_ol
                              then \<lparr> language = None, alt = None, items = Some [''''] \<rparr>
                              else \<lparr> language = None, alt = None, items = None \<rparr>) \<rparr> ]"
  by (simp add: addBlock_def includes_list_iff del: includes_str.simps)

text \<open>
  Claim C4. For an id that no block of the document has, \<open>updateBlock\<close> (with any
  partial fields) and \<open>removeBlock\<close> return the document as it is. Both are total
  functions without an error result.
\<close>

theorem unknown_id_noop:
  assumes "i \<notin> block_id ` set d"
  shows "updateBlock i u d = d \<and> removeBlock i d = d"
proof
  have "\<forall>b \<in> set d. block_id b \<noteq> i"
    using assms by blast
  then show "updateBlock i u d = d"
    by (simp add: updateBlock_def map_idI)
  show "removeBlock i d = d"
    unfolding removeBlock_def using assms by (intro filter_True) blast
qed

theorem unknown_id_noop_witness:
  "''3'' \<notin> block_id ` set INITIAL_BLOCKS \<and>
   updateBlock ''3''
     \<lparr> p_id = Some ''4'', p_type = Some BT_code, p_content = Some ''x'',
       p_metadata = Some None \<rparr>
     INITIAL_BLOCKS = INITIAL_BLOCKS \<and>
   removeBlock ''3'' INITIAL_BLOCKS = INITIAL_BLOCKS"
proof -
  have h: "''3'' \<notin> block_id ` set INITIAL_BLOCKS"
    by (simp add: INITIAL_BLOCKS_def)
  show ?thesis
    using h unknown_id_noop [OF h] by simp
qed

text \<open>
  Claim C5. \<open>moveBlock\<close> returns the document as it is when no block has the id, when
  the block is first and the direction is up, and when it is last and the direction is
  down; otherwise it swaps the block with its neighbour in the direction. The block
  that the id identifies is the first one with this id (the only one, when ids are
  unique): \<open>pre\<close> is the part of the document before it.
\<close>

theorem moveBlock_edges_and_swap:
  "(i \<notin> block_id ` set d \<longrightarrow> moveBlock i dir d = d) \<and>
   (block_id b = i \<longrightarrow> moveBlock i Up (b # post) = b # post) \<and>
   (i \<notin> block_id ` set pre \<and> block_id b = i \<longrightarrow>
      moveBlock i Down (pre @ [b]) = pre @ [b]) \<and>
   (i \<notin> block_id ` set pre \<and> block_id a \<noteq> i \<and> block_id b = i \<longrightarrow>
      moveBlock i Up (pre @ a # b # post) = pre @ b # a # post) \<and>
   (i \<notin> block_id ` set pre \<and> block_id b = i \<longrightarrow>
      moveBlock i Down (pre @ b # c # post) = pre @ c # b # post)"
proof (intro conjI impI)
  assume "i \<notin> block_id ` set d"
  then show "moveBlock i dir d = d"
    by (rule moveBlock_absent)
next
  assume "block_id b = i"
  then show "moveBlock i Up (b # post) = b # post"
    by (rule moveBlock_first_up)
next
  assume "i \<notin> block_id ` set pre \<and> block_id b = i"
  then show "moveBlock i Down (pre @ [b]) = pre @ [b]"
    by (simp add: moveBlock_last_down)
next
  assume "i \<notin> block_id ` set pre \<and> block_id a \<noteq> i \<and> block_id b = i"
  then show "moveBlock i Up (pre @ a # b # post) = pre @ b # a # post"
    by (simp add: moveBlock_up_swap)
next
  assume "i \<notin> block_id ` set pre \<and> block_id b = i"
  then show "moveBlock i Down (pre @ b # c # post) = pre @ c # b # post"
    by (simp add: moveBlock_down_swap)
qed

theorem moveBlock_edges_and_swap_witness:
  "''2'' \<notin> block_id `
      set [\<lparr> block_id = ''1'', block_type = BT_h1, content = ''a'', metadata = None \<rparr>] \<and>
   block_id \<lparr> block_id = ''0'', block_type = BT_h3, content = ''z'', metadata = None \<rparr>
     \<noteq> ''2'' \<and>
   block_id \<lparr> block_id = ''2'', block_type = BT_h2, content = ''b'', metadata = None \<rparr>
     = ''2'' \<and>
   moveBlock ''2'' Up
     [\<lparr> block_id = ''1'', block_type = BT_h1, content = ''a'', metadata = None \<rparr>]
   = [\<lparr> block_id = ''1'', block_type = BT_h1, content = ''a'', metadata = None \<rparr>] \<and>
   moveBlock ''2'' Up
     [\<lparr> block_id = ''2'', block_type = BT_h2, content = ''b'', metadata = None \<rparr>,
      \<lparr> block_id = ''3'', block_type = BT_divider, content = ''c'', metadata = None \<rparr>]
   = [\<lparr> block_id = ''2'', block_type = BT_h2, content = ''b'', metadata = None \<rparr>,
      \<lparr> block_id = ''3'', block_type = BT_divider, content = ''c'', metadata = None \<rparr>] \<and>
   moveBlock ''2'' Down
     [\<lparr> block_id = ''1'', block_type = BT_h1, content = ''a'', metadata = None \<rparr>,
      \<lparr> block_id = ''2'', block_type = BT_h2, content = ''b'', metadata = None \<rparr>]
   = [\<lparr> block_id = ''1'', block_type = BT_h1, content = ''a'', metadata = None \<rparr>,
      \<lparr> block_id = ''2'', block_type = BT_h2, content = ''b'', metadata = None \<rparr>] \<and>
   moveBlock ''2'' Up
     [\<lparr> block_id = ''1'', block_type = BT_h1, content = ''a'', metadata = None \<rparr>,
      \<lparr> block_id = ''0'', block_type = BT_h3, content = ''z'', metadata = None \<rparr>,
      \<lparr> block_id = ''2'', block_type = BT_h2, content = ''b'', metadata = None \<rparr>,
      \<lparr> block_id = ''3'', block_type = BT_divider, content = ''c'', metadata = None \<rparr>]
   = [\<lparr> block_id = ''1'', block_type = BT_h1, content = ''a'', metadata = None \<rparr>,
      \<lparr> block_id = ''2'', block_type = BT_h2, content = ''b'', metadata = None \<rparr>,
      \<lparr> block_id = ''0'', block_type = BT_h3, content = ''z'', metadata = None \<rparr>,
      \<lparr> block_id = ''3'', block_type = BT_divider, content = ''c'', metadata = None \<rparr>] \<and>
   moveBlock ''2'' Down
     [\<lparr> block_id = ''1'', block_type = BT_h1, content = ''a'', metadata = None \<rparr>,
      \<lparr> block_id = ''2'', block_type = BT_h2, content = ''b'', metadata = None \<rparr>,
      \<lparr> block_id = ''4'', block_type = BT_code, content = ''d'', metadata = None \<rparr>,
      \<lparr> block_id = ''3'', block_type = BT_divider, content = ''c'', metadata = None \<rparr>]
   = [\<lparr> block_id = ''1'', block_type = BT_h1, content = ''a'', metadata = None \<rparr>,
      \<lparr> block_id = ''4'', block_type = BT_code, content = ''d'', metadata = None \<rparr>,
      \<lparr> block_id = ''2'', block_type = BT_h2, content = ''b'', metadata = None \<rparr>,
      \<lparr> block_id = ''3'', block_type = BT_divider, content = ''c'', metadata = None \<rparr>]"
  using moveBlock_edges_and_swap
    [of "''2''"
        "[\<lparr> block_id = ''1'', block_type = BT_h1, content = ''a'', metadata = None \<rparr>]"
        Up
        "\<lparr> block_id = ''2'', block_type = BT_h2, content = ''b'', metadata = None \<rparr>"
        "[\<lparr> block_id = ''3'', block_type = BT_divider, content = ''c'', metadata = None \<rparr>]"
        "[\<lparr> block_id = ''1'', block_type = BT_h1, content = ''a'', metadata = None \<rparr>]"
        "\<lparr> block_id = ''0'', block_type = BT_h3, content = ''z'', metadata = None \<rparr>"
        "\<lparr> block_id = ''4'', block_type = BT_code, content = ''d'', metadata = None \<rparr>"]
  by simp

text \<open>
  Claim C6. When the first block of the document does not have the id, moving the
  identified block up and then down gives back the document. This covers an id that
  no block has.
\<close>

theorem move_up_down_roundtrip:
  assumes "d = [] \<or> block_id (hd d) \<noteq> i"
  shows "moveBlock i Down (moveBlock i Up d) = d"
proof (cases "i \<in> block_id ` set d")
  case False
  then show ?thesis by (simp add: moveBlock_absent)
next
  case True
  then have "\<exists>x \<in> set d. block_id x = i" by auto
  then obtain pre b post where d: "d = pre @ b # post" and b: "block_id b = i"
    and pre: "\<forall>x \<in> set pre. block_id x \<noteq> i"
    using split_list_first_prop [of d "\<lambda>x. block_id x = i"] by blast
  from pre have fresh: "i \<notin> block_id ` set pre" by auto
  from assms d b have "pre \<noteq> []" by (cases pre) auto
  then obtain pre' a where pre': "pre = pre' @ [a]"
    by (cases pre rule: rev_cases) auto
  from fresh pre' have fresh': "i \<notin> block_id ` set pre'" and a: "block_id a \<noteq> i"
    by auto
  have "moveBlock i Up d = pre' @ b # a # post"
    using moveBlock_up_swap [OF fresh' a b] by (simp add: d pre')
  moreover have "moveBlock i Down (pre' @ b # a # post) = pre' @ a # b # post"
    using fresh' b by (rule moveBlock_down_swap)
  ultimately show ?thesis by (simp add: d pre')
qed

theorem move_up_down_roundtrip_witness:
  "(INITIAL_BLOCKS = [] \<or> block_id (hd INITIAL_BLOCKS) \<noteq> ''2'') \<and>
   moveBlock ''2'' Up INITIAL_BLOCKS = rev INITIAL_BLOCKS \<and>
   moveBlock ''2'' Down (moveBlock ''2'' Up INITIAL_BLOCKS) = INITIAL_BLOCKS"
proof -
  have h: "INITIAL_BLOCKS = [] \<or> block_id (hd INITIAL_BLOCKS) \<noteq> ''2''"
    by (simp add: INITIAL_BLOCKS_def)
  have up: "moveBlock ''2'' Up INITIAL_BLOCKS = rev INITIAL_BLOCKS"
    by (simp add: INITIAL_BLOCKS_def moveBlock_def findIndex_def)
  show ?thesis
    by (intro conjI h up move_up_down_roundtrip [OF h])
qed

section \<open>Output generation: the claims\<close>

text \<open>
  Claim C2. \<open>generateMarkdownString\<close> renders every block with \<open>render_block\<close> and
  puts exactly two newline characters between the renderings of consecutive blocks,
  in the order of the document: nothing for the empty document, the rendering alone
  for one block, and for more blocks the first rendering, two newlines and the output
  for the rest. The rendering of a heading of level 1, 2 or 3 is that many \<open>#\<close>, a
  space and the content; of a paragraph the content; of a quote \<open>> \<close> and the
  content; of a divider \<open>---\<close>, for every content, id and metadata (code, image and
  the lists are in C7, C8 and C9). The document of a heading \<open>T\<close> and a paragraph
  \<open>body\<close> gives \<open># T\<close>, an empty line and \<open>body\<close>.
\<close>

theorem generateMarkdownString_joins:
  "generateMarkdownString [] = '''' \<and>
   generateMarkdownString [b] = render_block b \<and>
   generateMarkdownString (b # c # bs) =
     render_block b @ ''\<newline>\<newline>'' @ generateMarkdownString (c # bs) \<and>
   generateMarkdownString d = join_between ''\<newline>\<newline>'' (map render_block d) \<and>
   render_block \<lparr> block_id = i, block_type = BT_h1, content = t, metadata = md \<rparr>
     = ''# '' @ t \<and>
   render_block \<lparr> block_id = i, block_type = BT_h2, content = t, metadata = md \<rparr>
     = ''## '' @ t \<and>
   render_block \<lparr> block_id = i, block_type = BT_h3, content = t, metadata = md \<rparr>
     = ''### '' @ t \<and>
   render_block \<lparr> block_id = i, block_type = BT_paragraph, content = t, metadata = md \<rparr>
     = t \<and>
   render_block \<lparr> block_id = i, block_type = BT_blockquote, content = t, metadata = md \<rparr>
     = ''> '' @ t \<and>
   render_block \<lparr> block_id = i, block_type = BT_divider, content = t, metadata = md \<rparr>
     = ''---'' \<and>
   generateMarkdownString
     [ \<lparr> block_id = i1, block_type = BT_h1, content = ''T'', metadata = m1 \<rparr>,
       \<lparr> block_id = i2, block_type = BT_paragraph, content = ''body'', metadata = m2 \<rparr> ]
   = ''# T\<newline>\<newline>body''"
  by (simp add: generateMarkdownString_def join_between_eq render_block_def)

text \<open>
  Claim C7. A code block is rendered as three backticks, the language (nothing when
  there is no metadata object or no language in it), a newline, the content, a newline
  and three backticks. The block with content \<open>print(1)\<close> and language \<open>py\<close> gives
  the fenced block of the specification.
\<close>

theorem render_code_fenced:
  "render_block \<lparr> block_id = i, block_type = BT_code, content = c, metadata = md \<rparr> =
     ''```''
       @ (case md of
            None \<Rightarrow> ''''
          | Some m \<Rightarrow> (case language m of None \<Rightarrow> '''' | Some l \<Rightarrow> l))
       @ ''\<newline>'' @ c @ ''\<newline>'' @ ''```'' \<and>
   generateMarkdownString
     [ \<lparr> block_id = i, block_type = BT_code, content = ''print(1)'',
         metadata = Some \<lparr> language = Some ''py'', alt = a, items = its \<rparr> \<rparr> ]
   = ''```py\<newline>print(1)\<newline>```''"
  by (simp add: render_block_def generateMarkdownString_def join_between_eq opt_chain_def
      or_default_def split: option.split)

text \<open>
  Claim C8, as amended. An image block is rendered as \<open>![\<close>, the alt text, \<open>](\<close>, the
  content and \<open>)\<close>, where the alt text is the one of the metadata when it is set and not
  the empty string, and the literal \<open>image\<close> when it is unset or the empty string.
\<close>

theorem render_image_alt_default:
  "render_block \<lparr> block_id = i, block_type = BT_image, content = c, metadata = md \<rparr> =
     ''![''
       @ (case md of
            None \<Rightarrow> ''image''
          | Some m \<Rightarrow>
              (case alt m of
                 None \<Rightarrow> ''image''
               | Some a \<Rightarrow> if a = '''' then ''image'' else a))
       @ '']('' @ c @ '')''"
  by (simp add: render_block_def opt_chain_def or_default_def split: option.split)

text \<open>
  Claim C8 as stated fails for an alt text that is set to the empty string: the claim
  gives \<open>![](u)\<close> for the content \<open>u\<close>, the code \<open>![image](u)\<close>.
\<close>

theorem render_image_empty_alt:
  "render_block
     \<lparr> block_id = ''1'', block_type = BT_image, content = ''u'',
       metadata = Some \<lparr> language = None, alt = Some '''', items = None \<rparr> \<rparr>
   = ''![image](u)'' \<and>
   render_block
     \<lparr> block_id = ''1'', block_type = BT_image, content = ''u'',
       metadata = Some \<lparr> language = None, alt = Some '''', items = None \<rparr> \<rparr>
   \<noteq> ''!['' @ '''' @ '']('' @ ''u'' @ '')''"
  by (simp add: render_block_def opt_chain_def or_default_def)

text \<open>
  Claim C9. A bullet list is rendered as its items, each after \<open>- \<close>, with one newline
  between consecutive items; a numbered list as its items, the item at position \<open>k\<close>
  (from 0) after the decimal numeral of \<open>n = k + 1\<close> and \<open>. \<close>, with one newline
  between consecutive items. The numeral is written out: it has the least positive
  number \<open>len\<close> of digits with \<open>n < 10 ^ len\<close>, so no leading zero, and its digit
  at position \<open>j\<close> from the left is the character of \<open>n div 10 ^ (len - 1 - j) mod 10\<close>.
  A block without a metadata object or without items has no items. The lists
  \<open>a, b\<close> and \<open>x, y\<close> give the two outputs of the specification, and a list of
  eleven items is numbered up to \<open>10\<close> and \<open>11\<close>.
\<close>

theorem render_lists:
  "render_block \<lparr> block_id = i, block_type = BT_list_ul, content = c, metadata = md \<rparr>
   = join_between ''\<newline>''
       (map (\<lambda>item. ''- '' @ item)
          (case md of
             None \<Rightarrow> []
           | Some m \<Rightarrow> (case items m of None \<Rightarrow> [] | Some its \<Rightarrow> its))) \<and>
   render_block \<lparr> block_id = i, block_type = BT_list_ol, content = c, metadata = md \<rparr>
   = (let its = (case md of
                   None \<Rightarrow> []
                 | Some m \<Rightarrow> (case items m of None \<Rightarrow> [] | Some its \<Rightarrow> its))
      in join_between ''\<newline>''
           (map (\<lambda>k.
                   (let n = k + 1;
                        len = (LEAST m. 0 < m \<and> n < 10 ^ m)
                    in map (\<lambda>j. ''0123456789'' ! (n div 10 ^ (len - 1 - j) mod 10)) [0..<len])
                   @ ''. '' @ its ! k)
              [0..<length its])) \<and>
   generateMarkdownString
     [ \<lparr> block_id = i, block_type = BT_list_ul, content = c,
         metadata = Some \<lparr> language = l, alt = a, items = Some [''a'', ''b''] \<rparr> \<rparr> ]
   = ''- a\<newline>- b'' \<and>
   generateMarkdownString
     [ \<lparr> block_id = i, block_type = BT_list_ol, content = c,
         metadata = Some \<lparr> language = l, alt = a, items = Some [''x'', ''y''] \<rparr> \<rparr> ]
   = ''1. x\<newline>2. y'' \<and>
   generateMarkdownString
     [ \<lparr> block_id = i, block_type = BT_list_ol, content = c,
         metadata = Some \<lparr> language = l, alt = a,
           items = Some [''a'', ''b'', ''c'', ''d'', ''e'', ''f'', ''g'', ''h'', ''i'', ''j'',
                         ''k''] \<rparr> \<rparr> ]
   = ''1. a\<newline>2. b\<newline>3. c\<newline>4. d\<newline>5. e\<newline>6. f\<newline>7. g\<newline>8. h\<newline>9. i\<newline>10. j\<newline>11. k''"
proof (intro conjI)
  show "render_block \<lparr> block_id = i, block_type = BT_list_ul, content = c, metadata = md \<rparr>
   = join_between ''\<newline>''
       (map (\<lambda>item. ''- '' @ item)
          (case md of
             None \<Rightarrow> []
           | Some m \<Rightarrow> (case items m of None \<Rightarrow> [] | Some its \<Rightarrow> its)))"
    by (simp add: render_block_def opt_chain_def or_empty_def join_between_eq append_def
        split: option.split)
  have "render_block \<lparr> block_id = i, block_type = BT_list_ol, content = c, metadata = md \<rparr>
   = (let its = (case md of
                   None \<Rightarrow> []
                 | Some m \<Rightarrow> (case items m of None \<Rightarrow> [] | Some its \<Rightarrow> its))
      in join_between ''\<newline>''
           (map (\<lambda>k. string_of_nat (k + 1) @ ''. '' @ its ! k) [0..<length its]))"
    by (simp add: render_block_def opt_chain_def or_empty_def join_between_eq map_index_upt
        split: option.split)
  also have "(\<lambda>k. string_of_nat (k + 1)) =
      (\<lambda>k. let n = k + 1; len = (LEAST m. 0 < m \<and> n < 10 ^ m)
            in map (\<lambda>j. ''0123456789'' ! (n div 10 ^ (len - 1 - j) mod 10)) [0..<len])"
    unfolding Let_def by (rule ext) (rule string_of_nat_positional)
  finally show "render_block \<lparr> block_id = i, block_type = BT_list_ol, content = c, metadata = md \<rparr>
   = (let its = (case md of
                   None \<Rightarrow> []
                 | Some m \<Rightarrow> (case items m of None \<Rightarrow> [] | Some its \<Rightarrow> its))
      in join_between ''\<newline>''
           (map (\<lambda>k.
                   (let n = k + 1;
                        len = (LEAST m. 0 < m \<and> n < 10 ^ m)
                    in map (\<lambda>j. ''0123456789'' ! (n div 10 ^ (len - 1 - j) mod 10)) [0..<len])
                   @ ''. '' @ its ! k)
              [0..<length its]))" .
  show "generateMarkdownString
     [ \<lparr> block_id = i, block_type = BT_list_ul, content = c,
         metadata = Some \<lparr> language = l, alt = a, items = Some [''a'', ''b''] \<rparr> \<rparr> ]
   = ''- a\<newline>- b''"
    by (simp add: generateMarkdownString_def render_block_def opt_chain_def or_empty_def
        join_between_eq)
  show "generateMarkdownString
     [ \<lparr> block_id = i, block_type = BT_list_ol, content = c,
         metadata = Some \<lparr> language = l, alt = a, items = Some [''x'', ''y''] \<rparr> \<rparr> ]
   = ''1. x\<newline>2. y''"
    by (simp add: generateMarkdownString_def render_block_def opt_chain_def or_empty_def
        join_between_eq map_index_def string_of_nat_1 string_of_nat_2)
  show "generateMarkdownString
     [ \<lparr> block_id = i, block_type = BT_list_ol, content = c,
         metadata = Some \<lparr> language = l, alt = a,
           items = Some [''a'', ''b'', ''c'', ''d'', ''e'', ''f'', ''g'', ''h'', ''i'', ''j'',
                         ''k''] \<rparr> \<rparr> ]
   = ''1. a\<newline>2. b\<newline>3. c\<newline>4. d\<newline>5. e\<newline>6. f\<newline>7. g\<newline>8. h\<newline>9. i\<newline>10. j\<newline>11. k''"
    by (simp add: generateMarkdownString_def render_block_def opt_chain_def or_empty_def
        join_between_eq map_index_def string_of_nat.simps digit_char_def)
qed

text \<open>
  Claim C10. Two documents of the same length whose blocks agree, position by
  position, on kind, content and metadata have the same output, whatever their ids.
\<close>

theorem generateMarkdownString_ignores_ids:
  assumes "list_all2 (\<lambda>a b. block_type a = block_type b \<and> content a = content b \<and>
             metadata a = metadata b) d1 d2"
  shows "generateMarkdownString d1 = generateMarkdownString d2"
proof -
  from assms have "map render_block d1 = map render_block d2"
  proof (induction rule: list_all2_induct)
    case Nil
    show ?case by simp
  next
    case (Cons a as b bs)
    then have "render_block a = render_block b"
      by (intro render_block_cong) simp_all
    with Cons.IH show ?case by simp
  qed
  then show ?thesis
    by (simp add: generateMarkdownString_def)
qed

theorem generateMarkdownString_ignores_ids_witness:
  "list_all2 (\<lambda>a b. block_type a = block_type b \<and> content a = content b \<and>
      metadata a = metadata b)
     [ \<lparr> block_id = ''1'', block_type = BT_h1, content = ''T'', metadata = None \<rparr>,
       \<lparr> block_id = ''2'', block_type = BT_paragraph, content = ''body'', metadata = None \<rparr> ]
     [ \<lparr> block_id = ''x'', block_type = BT_h1, content = ''T'', metadata = None \<rparr>,
       \<lparr> block_id = ''x'', block_type = BT_paragraph, content = ''body'', metadata = None \<rparr> ] \<and>
   generateMarkdownString
     [ \<lparr> block_id = ''1'', block_type = BT_h1, content = ''T'', metadata = None \<rparr>,
       \<lparr> block_id = ''2'', block_type = BT_paragraph, content = ''body'', metadata = None \<rparr> ]
   = generateMarkdownString
     [ \<lparr> block_id = ''x'', block_type = BT_h1, content = ''T'', metadata = None \<rparr>,
       \<lparr> block_id = ''x'', block_type = BT_paragraph, content = ''body'', metadata = None \<rparr> ]"
proof -
  have h: "list_all2 (\<lambda>a b. block_type a = block_type b \<and> content a = content b \<and>
      metadata a = metadata b)
     [ \<lparr> block_id = ''1'', block_type = BT_h1, content = ''T'', metadata = None \<rparr>,
       \<lparr> block_id = ''2'', block_type = BT_paragraph, content = ''body'', metadata = None \<rparr> ]
     [ \<lparr> block_id = ''x'', block_type = BT_h1, content = ''T'', metadata = None \<rparr>,
       \<lparr> block_id = ''x'', block_type = BT_paragraph, content = ''body'', metadata = None \<rparr> ]"
    by simp
  show ?thesis
    by (intro conjI h generateMarkdownString_ignores_ids [OF h])
qed

end
